theory Spec2Isabelle
  imports Complex_Main
begin

section \<open>accounting-js: a shallow embedding of \<open>dist/accounting.es.js\<close>\<close>

text \<open>
  Conventions of the embedding.
  \<^item> A JavaScript string is a \<open>string\<close> (one \<open>char\<close> per code unit; the library only
    inspects ASCII characters).
  \<^item> A JavaScript number is a \<open>number\<close>: \<open>NaN\<close>, the two infinities, or a finite value
    held as an exact rational. The rounding error of IEEE doubles and the sign of zero are
    not represented; \<open>Number.prototype.toFixed\<close> is taken in its positional regime
    (magnitudes below \<open>10^21\<close>).
  \<^item> \<open>undefined\<close> is \<open>None\<close>; a thrown exception is \<open>Inl e\<close>.
\<close>

subsection \<open>Strings\<close>

datatype error = TypeError | RangeError | SyntaxError

fun starts_with :: "string \<Rightarrow> string \<Rightarrow> bool" where
  "starts_with s [] = True"
| "starts_with [] (p # ps) = False"
| "starts_with (c # cs) (p # ps) = (c = p \<and> starts_with cs ps)"

text \<open>\<open>String.prototype.indexOf\<close>; \<open>None\<close> stands for \<open>-1\<close>.\<close>

fun indexOf :: "string \<Rightarrow> string \<Rightarrow> nat option" where
  "indexOf [] p = (if p = [] then Some 0 else None)"
| "indexOf (c # cs) p =
     (if starts_with (c # cs) p then Some 0 else map_option Suc (indexOf cs p))"

definition is_digit :: "char \<Rightarrow> bool" where
  "is_digit c = (c \<in> set ''0123456789'')"

definition digit_val :: "char \<Rightarrow> nat" where
  "digit_val c = of_char c - 48"

definition digit_char :: "nat \<Rightarrow> char" where
  "digit_char d = ''0123456789'' ! d"

text \<open>
  The replacement-text expansion of \<open>String.prototype.replace\<close> (ECMAScript
  \<open>GetSubstitution\<close>): \<open>$$\<close>, \<open>$&\<close>, \<open>$`\<close>, \<open>$'\<close> and the numbered captures
  \<open>$n\<close>, \<open>$nn\<close>. A two-digit index beyond the number of captures is read as a one-digit
  index followed by a literal digit; an index that names no capture leaves the text as is.
  An undefined capture expands to the empty string.
\<close>

definition capture :: "string option list \<Rightarrow> nat \<Rightarrow> string" where
  "capture caps n = (case caps ! (n - 1) of None \<Rightarrow> [] | Some s \<Rightarrow> s)"

fun get_substitution ::
  "string \<Rightarrow> string \<Rightarrow> string \<Rightarrow> string option list \<Rightarrow> string \<Rightarrow> string" where
  "get_substitution m pre post caps [] = []"
| "get_substitution m pre post caps [c] = [c]"
| "get_substitution m pre post caps (c # d # r) =
     (if c \<noteq> CHR ''$'' then c # get_substitution m pre post caps (d # r)
      else if d = CHR ''$'' then CHR ''$'' # get_substitution m pre post caps r
      else if d = CHR ''&'' then m @ get_substitution m pre post caps r
      else if d = CHR ''`'' then pre @ get_substitution m pre post caps r
      else if d = CHR 0x27 then post @ get_substitution m pre post caps r
      else if is_digit d then
        (case r of
           e # r' \<Rightarrow>
             if is_digit e \<and> 10 * digit_val d + digit_val e \<le> length caps then
               (if 1 \<le> 10 * digit_val d + digit_val e
                then capture caps (10 * digit_val d + digit_val e)
                       @ get_substitution m pre post caps r'
                else c # d # e # get_substitution m pre post caps r')
             else if 1 \<le> digit_val d \<and> digit_val d \<le> length caps
             then capture caps (digit_val d) @ get_substitution m pre post caps r
             else c # d # get_substitution m pre post caps r
         | [] \<Rightarrow>
             if 1 \<le> digit_val d \<and> digit_val d \<le> length caps
             then capture caps (digit_val d)
             else [c, d])
      else c # get_substitution m pre post caps (d # r))"

text \<open>
  \<open>s.replace(p, r)\<close> with a string pattern \<open>p\<close>: only the first occurrence of \<open>p\<close> is
  replaced, by the expansion of \<open>r\<close>; without an occurrence \<open>s\<close> is returned.
\<close>

definition replace_str :: "string \<Rightarrow> string \<Rightarrow> string \<Rightarrow> string" where
  "replace_str s p r =
     (case indexOf s p of
        None \<Rightarrow> s
      | Some i \<Rightarrow>
          take i s
            @ get_substitution p (take i s) (drop (i + length p) s) [] r
            @ drop (i + length p) s)"

subsection \<open>Numbers\<close>

datatype number = Fin rat | PInf | NInf | NaN

text \<open>
  \<open>map_fin f\<close> applies \<open>f\<close> to a finite value and leaves the special values alone; it is
  used for adding a finite constant and for multiplying or dividing by a positive finite
  constant, which all keep an infinity and \<open>NaN\<close> as they are.
\<close>

fun map_fin :: "(rat \<Rightarrow> rat) \<Rightarrow> number \<Rightarrow> number" where
  "map_fin f (Fin x) = Fin (f x)"
| "map_fin f PInf = PInf"
| "map_fin f NInf = NInf"
| "map_fin f NaN = NaN"

fun Math_abs :: "number \<Rightarrow> number" where
  "Math_abs (Fin x) = Fin \<bar>x\<bar>"
| "Math_abs PInf = PInf"
| "Math_abs NInf = PInf"
| "Math_abs NaN = NaN"

definition Math_round :: "number \<Rightarrow> number" where
  "Math_round = map_fin (\<lambda>x. of_int \<lfloor>x + 1 / 2\<rfloor>)"

definition Math_ceil :: "number \<Rightarrow> number" where
  "Math_ceil = map_fin (\<lambda>x. of_int \<lceil>x\<rceil>)"

definition Math_floor :: "number \<Rightarrow> number" where
  "Math_floor = map_fin (\<lambda>x. of_int \<lfloor>x\<rfloor>)"

text \<open>The comparisons \<open>v < 0\<close> and \<open>v > 0\<close>; both are false for \<open>NaN\<close>.\<close>

fun lt0 :: "number \<Rightarrow> bool" where
  "lt0 (Fin x) = (x < 0)"
| "lt0 PInf = False"
| "lt0 NInf = True"
| "lt0 NaN = False"

fun gt0 :: "number \<Rightarrow> bool" where
  "gt0 (Fin x) = (0 < x)"
| "gt0 PInf = True"
| "gt0 NInf = False"
| "gt0 NaN = False"

fun negate :: "number \<Rightarrow> number" where
  "negate (Fin x) = Fin (- x)"
| "negate PInf = NInf"
| "negate NInf = PInf"
| "negate NaN = NaN"

subsection \<open>Settings\<close>

text \<open>
  The \<open>format\<close> setting is a template string or an object with the properties \<open>pos\<close>,
  \<open>neg\<close> and \<open>zero\<close>, each of which may be absent.
\<close>

datatype format = FString string | FObject "string option" "string option" "string option"

fun fmt_pos :: "format \<Rightarrow> string option" where
  "fmt_pos (FString s) = None"
| "fmt_pos (FObject p n z) = p"

fun fmt_neg :: "format \<Rightarrow> string option" where
  "fmt_neg (FString s) = None"
| "fmt_neg (FObject p n z) = n"

fun fmt_zero :: "format \<Rightarrow> string option" where
  "fmt_zero (FString s) = None"
| "fmt_zero (FObject p n z) = z"

text \<open>
  \<open>checkCurrencyFormat\<close>: a string containing \<open>%v\<close> becomes the triple of templates;
  anything else is returned as it is (a string without \<open>%v\<close> has none of the three
  properties).
\<close>

fun checkCurrencyFormat :: "format \<Rightarrow> format" where
  "checkCurrencyFormat (FString f) =
     (if indexOf f ''%v'' \<noteq> None
      then FObject (Some f)
             (Some (replace_str (replace_str f ''-'' '''') ''%v'' ''-%v''))
             (Some f)
      else FString f)"
| "checkCurrencyFormat (FObject p n z) = FObject p n z"


record settings =
  symbol :: string
  format :: format
  decimal :: char
  thousand :: string
  precision :: int
  grouping :: nat
  stripZeros :: bool
  fallback :: number
  round_dir :: int

text \<open>
  The separator \<open>decimal\<close> is a single character; \<open>precision\<close> and \<open>round\<close> (here
  \<open>round_dir\<close>) are integers of either sign. The defaults of the library:
\<close>

definition default_settings :: settings where
  "default_settings =
     \<lparr> symbol = ''$'', format = FString ''%s%v'', decimal = CHR ''.'', thousand = '','',
       precision = 2, grouping = 3, stripZeros = False, fallback = Fin 0, round_dir = 0 \<rparr>"

text \<open>
  The options object of one call: each property is absent (\<open>None\<close>) or holds a value.
  \<open>objectAssign({}, settings, opts)\<close> copies the defaults and then the properties that
  \<open>opts\<close> has.
\<close>

record options =
  o_symbol :: "string option"
  o_format :: "format option"
  o_decimal :: "char option"
  o_thousand :: "string option"
  o_precision :: "int option"
  o_grouping :: "nat option"
  o_stripZeros :: "bool option"
  o_fallback :: "number option"
  o_round :: "int option"

definition no_options :: options where
  "no_options =
     \<lparr> o_symbol = None, o_format = None, o_decimal = None, o_thousand = None,
       o_precision = None, o_grouping = None, o_stripZeros = None, o_fallback = None,
       o_round = None \<rparr>"

definition pick :: "'a \<Rightarrow> 'a option \<Rightarrow> 'a" where
  "pick d v = (case v of None \<Rightarrow> d | Some x \<Rightarrow> x)"

definition objectAssign :: "settings \<Rightarrow> options \<Rightarrow> settings" where
  "objectAssign st opts =
     \<lparr> symbol = pick (symbol st) (o_symbol opts),
       format = pick (format st) (o_format opts),
       decimal = pick (decimal st) (o_decimal opts),
       thousand = pick (thousand st) (o_thousand opts),
       precision = pick (precision st) (o_precision opts),
       grouping = pick (grouping st) (o_grouping opts),
       stripZeros = pick (stripZeros st) (o_stripZeros opts),
       fallback = pick (fallback st) (o_fallback opts),
       round_dir = pick (round_dir st) (o_round opts) \<rparr>"

subsection \<open>Decimal-safe rounding: \<open>toFixed\<close>\<close>

text \<open>The decimal digits of a natural number (\<open>ToString\<close> of a non-negative integer).\<close>

function string_of_nat :: "nat \<Rightarrow> string" where
  "string_of_nat n =
     (if n < 10 then [digit_char n] else string_of_nat (n div 10) @ [digit_char (n mod 10)])"
  by pat_completeness auto
termination
  by (relation "measure id") auto

text \<open>
  \<open>Number.prototype.toFixed\<close> with \<open>p\<close> fraction digits: a \<open>RangeError\<close> outside
  \<open>0..100\<close>; \<open>NaN\<close> and the infinities print their names; a finite value is rounded to the
  nearest multiple of \<open>10^-p\<close> (ties to the larger one) and printed with at least one
  integer digit and, when \<open>p > 0\<close>, a point and exactly \<open>p\<close> fraction digits.
\<close>

definition pad_zeros :: "nat \<Rightarrow> string \<Rightarrow> string" where
  "pad_zeros k m = replicate (k - length m) (CHR ''0'') @ m"

definition fixed_digits :: "nat \<Rightarrow> nat \<Rightarrow> string" where
  "fixed_digits n p =
     (if p = 0 then string_of_nat n
      else let m = pad_zeros (p + 1) (string_of_nat n)
           in take (length m - p) m @ ''.'' @ drop (length m - p) m)"

fun native_toFixed :: "number \<Rightarrow> int \<Rightarrow> error + string" where
  "native_toFixed v p =
     (if p < 0 \<or> 100 < p then Inl RangeError
      else case v of
        NaN \<Rightarrow> Inr ''NaN''
      | PInf \<Rightarrow> Inr ''Infinity''
      | NInf \<Rightarrow> Inr ''-Infinity''
      | Fin x \<Rightarrow>
          Inr ((if x < 0 then ''-'' else [])
                 @ fixed_digits (nat \<lfloor>\<bar>x\<bar> * 10 ^ nat p + 1 / 2\<rfloor>) (nat p)))"

text \<open>
  \<open>checkPrecision(val, base)\<close>: \<open>Math.round(Math.abs(val))\<close>, or \<open>base\<close> when that is
  \<open>NaN\<close> (an absent \<open>val\<close>).
\<close>

definition checkPrecision :: "int option \<Rightarrow> int \<Rightarrow> int" where
  "checkPrecision val base = (case val of None \<Rightarrow> base | Some v \<Rightarrow> \<bar>v\<bar>)"

text \<open>\<open>Math.pow(10, k)\<close> for an integer \<open>k\<close>.\<close>

definition pow10 :: "int \<Rightarrow> rat" where
  "pow10 k = (if 0 \<le> k then 10 ^ nat k else 1 / 10 ^ nat (- k))"

text \<open>
  \<open>toFixed(value, precision, round)\<close>. The base of \<open>checkPrecision\<close> is the precision of
  the library's default settings \<open>st\<close>. An absent \<open>round\<close> is neither \<open>> 0\<close> nor \<open>< 0\<close>.
\<close>

definition roundMethod :: "int option \<Rightarrow> number \<Rightarrow> number" where
  "roundMethod rnd =
     (case rnd of
        None \<Rightarrow> Math_round
      | Some r \<Rightarrow> if r > 0 then Math_ceil else if r < 0 then Math_floor else Math_round)"

definition toFixed :: "settings \<Rightarrow> number \<Rightarrow> int option \<Rightarrow> int option \<Rightarrow> error + string" where
  "toFixed st val prec rnd =
     (let prec' = checkPrecision prec (precision st);
          power = pow10 prec'
      in native_toFixed
           (map_fin (\<lambda>x. x / power)
              (roundMethod rnd (map_fin (\<lambda>x. (x + 1 / 10 ^ 11) * power) val)))
           prec')"

declare string_of_nat.simps [simp del]

subsection \<open>Number formatting\<close>

text \<open>
  \<open>parseInt(s, 10)\<close> on a string without leading white space: an optional sign and the
  longest prefix of digits; \<open>None\<close> (\<open>NaN\<close>) without a digit. The value of a digit string
  is read by \<open>nat_of_digits\<close>.
\<close>

definition nat_of_digits :: "string \<Rightarrow> nat" where
  "nat_of_digits ds = foldl (\<lambda>a c. 10 * a + digit_val c) 0 ds"

definition parseInt10 :: "string \<Rightarrow> int option" where
  "parseInt10 s =
     (let neg = (s \<noteq> [] \<and> hd s = CHR ''-'');
          body = (if s \<noteq> [] \<and> (hd s = CHR ''-'' \<or> hd s = CHR ''+'') then tl s else s);
          ds = takeWhile is_digit body
      in if ds = [] then None
         else Some (if neg then - int (nat_of_digits ds) else int (nat_of_digits ds)))"

text \<open>\<open>v + ''\<close> for the result of \<open>parseInt\<close>.\<close>

definition string_of_int_opt :: "int option \<Rightarrow> string" where
  "string_of_int_opt v =
     (case v of
        None \<Rightarrow> ''NaN''
      | Some i \<Rightarrow> (if i < 0 then ''-'' else []) @ string_of_nat (nat \<bar>i\<bar>))"

text \<open>\<open>s.split(d)\<close> for a one-character separator.\<close>

function split_char :: "char \<Rightarrow> string \<Rightarrow> string list" where
  "split_char d s =
     (case dropWhile (\<lambda>c. c \<noteq> d) s of
        [] \<Rightarrow> [s]
      | x # r \<Rightarrow> takeWhile (\<lambda>c. c \<noteq> d) s # split_char d r)"
  by pat_completeness auto
termination
proof (relation "measure (\<lambda>(d, s). length s)")
  show "wf (measure (\<lambda>(d, s). length s))" by simp
next
  fix d :: char and s x r
  assume "dropWhile (\<lambda>c. c \<noteq> d) s = x # r"
  then have "length (x # r) \<le> length s"
    by (metis length_dropWhile_le)
  then show "((d, r), (d, s)) \<in> measure (\<lambda>(d, s). length s)" by simp
qed

declare split_char.simps [simp del]

text \<open>An array element that may be absent: \<open>parts[i]\<close>.\<close>

definition elem :: "'a list \<Rightarrow> nat \<Rightarrow> 'a option" where
  "elem xs i = (if i < length xs then Some (xs ! i) else None)"

text \<open>String concatenation with a possibly \<open>undefined\<close> operand.\<close>

definition str_or_undefined :: "string option \<Rightarrow> string" where
  "str_or_undefined v = (case v of None \<Rightarrow> ''undefined'' | Some s \<Rightarrow> s)"

text \<open>
  \<open>s.replace(/(\d{3})(?=\d)/g, '$1' + thousand)\<close>: scanning from the left, each three
  digits that a fourth digit follows are replaced by the expansion of the replacement text
  (capture 1 being the three digits), and scanning resumes after them. \<open>pre\<close> is the part
  of the subject already passed.
\<close>

fun insert_thousands :: "string \<Rightarrow> string \<Rightarrow> string \<Rightarrow> string" where
  "insert_thousands rep pre (a # b # c # d # r) =
     (if is_digit a \<and> is_digit b \<and> is_digit c \<and> is_digit d
      then get_substitution [a, b, c] pre (d # r) [Some [a, b, c]] rep
             @ insert_thousands rep (pre @ [a, b, c]) (d # r)
      else a # insert_thousands rep (pre @ [a]) (b # c # d # r))"
| "insert_thousands rep pre s = s"

text \<open>\<open>s.replace(/0+$/, '')\<close>: the trailing run of zeros is removed.\<close>

definition strip_trailing_zeros :: "string \<Rightarrow> string" where
  "strip_trailing_zeros s = rev (dropWhile (\<lambda>c. c = CHR ''0'') (rev s))"

text \<open>
  \<open>stripInsignificantZeros(str, decimal)\<close>. \<open>parts[1]\<close> is \<open>undefined\<close> when \<open>str\<close> has no
  separator, and calling \<open>replace\<close> on it throws a \<open>TypeError\<close>.
\<close>

definition stripInsignificantZeros :: "string \<Rightarrow> char \<Rightarrow> error + string" where
  "stripInsignificantZeros str dec =
     (let parts = split_char dec str;
          integerPart = hd parts
      in case elem parts 1 of
           None \<Rightarrow> Inl TypeError
         | Some p1 \<Rightarrow>
             (let decimalPart = strip_trailing_zeros p1
              in if length decimalPart > 0 then Inr (integerPart @ [dec] @ decimalPart)
                 else Inr integerPart))"

text \<open>Sequencing of calls that may throw.\<close>

definition bind_err :: "error + 'a \<Rightarrow> ('a \<Rightarrow> error + 'b) \<Rightarrow> error + 'b" where
  "bind_err m f = (case m of Inl e \<Rightarrow> Inl e | Inr x \<Rightarrow> f x)"

text \<open>A value or an array of such, to any depth.\<close>

datatype 'a nested = Scalar 'a | Array "'a nested list"

text \<open>
  An options object that has every property: the merged object that a function hands on
  to the functions it calls.
\<close>

definition as_options :: "settings \<Rightarrow> options" where
  "as_options s =
     \<lparr> o_symbol = Some (symbol s), o_format = Some (format s), o_decimal = Some (decimal s),
       o_thousand = Some (thousand s), o_precision = Some (precision s),
       o_grouping = Some (grouping s), o_stripZeros = Some (stripZeros s),
       o_fallback = Some (fallback s), o_round = Some (round_dir s) \<rparr>"

text \<open>
  \<open>formatNumber\<close> on a number that is not an array: \<open>formatNumber_core\<close> is the body
  after \<open>opts = objectAssign({}, settings, opts)\<close>, on the merged options. The first
  \<open>toFixed\<close> call passes \<open>opts.round\<close>; the second one, which supplies the fraction
  digits, passes no rounding direction.
\<close>

definition formatNumber_core :: "settings \<Rightarrow> settings \<Rightarrow> number \<Rightarrow> error + string" where
  "formatNumber_core st opts num =
     (let negative = (if lt0 num then ''-'' else [])
      in bind_err (toFixed st (Math_abs num) (Some (precision opts)) (Some (round_dir opts)))
           (\<lambda>t1.
              let base = string_of_int_opt (parseInt10 t1);
                  md = (if length base > 3 then length base mod 3 else 0)
              in bind_err
                   (if precision opts > 0
                    then bind_err (toFixed st (Math_abs num) (Some (precision opts)) None)
                           (\<lambda>t2. Inr ([decimal opts]
                                         @ str_or_undefined (elem (split_char (CHR ''.'') t2) 1)))
                    else Inr [])
                   (\<lambda>dec_part.
                      let formatted =
                            negative
                              @ (if md \<noteq> 0 then take md base @ thousand opts else [])
                              @ insert_thousands (''$1'' @ thousand opts) [] (drop md base)
                              @ dec_part
                      in if stripZeros opts
                         then stripInsignificantZeros formatted (decimal opts)
                         else Inr formatted)))"

definition formatNumber_num :: "settings \<Rightarrow> number \<Rightarrow> options \<Rightarrow> error + string" where
  "formatNumber_num st num opts0 = formatNumber_core st (objectAssign st opts0) num"

text \<open>\<open>formatNumber\<close>: arrays are formatted element by element, with the same options.\<close>

fun formatNumber :: "settings \<Rightarrow> number nested \<Rightarrow> options \<Rightarrow> error + string nested"
  and formatNumber_list :: "settings \<Rightarrow> number nested list \<Rightarrow> options \<Rightarrow> error + string nested list"
  where
  "formatNumber st (Scalar num) opts = map_sum id Scalar (formatNumber_num st num opts)"
| "formatNumber st (Array vals) opts = map_sum id Array (formatNumber_list st vals opts)"
| "formatNumber_list st [] opts = Inr []"
| "formatNumber_list st (v # vs) opts =
     bind_err (formatNumber st v opts)
       (\<lambda>r. bind_err (formatNumber_list st vs opts) (\<lambda>rs. Inr (r # rs)))"

subsection \<open>Currency formatting\<close>

text \<open>
  The template for an amount, chosen by its sign; \<open>None\<close> when the chosen property is
  absent.
\<close>

definition useFormat :: "format \<Rightarrow> number \<Rightarrow> string option" where
  "useFormat formats amount =
     (if gt0 amount then fmt_pos formats
      else if lt0 amount then fmt_neg formats
      else fmt_zero formats)"

text \<open>
  \<open>useFormat.replace('%s', opts.symbol).replace('%v', formatNumber(Math.abs(amount), opts))\<close>:
  calling \<open>replace\<close> on an absent template throws a \<open>TypeError\<close>, before \<open>formatNumber\<close>
  runs.
\<close>

definition render_money :: "settings \<Rightarrow> settings \<Rightarrow> format \<Rightarrow> number \<Rightarrow> error + string" where
  "render_money st opts formats amount =
     (case useFormat formats amount of
        None \<Rightarrow> Inl TypeError
      | Some tpl \<Rightarrow>
          bind_err (formatNumber_num st (Math_abs amount) (as_options opts))
            (\<lambda>v. Inr (replace_str (replace_str tpl ''%s'' (symbol opts)) ''%v'' v)))"

definition formatMoney_num :: "settings \<Rightarrow> number \<Rightarrow> options \<Rightarrow> error + string" where
  "formatMoney_num st amount opts0 =
     (let opts = objectAssign st opts0;
          formats = checkCurrencyFormat (format opts)
      in render_money st opts formats amount)"

fun formatMoney :: "settings \<Rightarrow> number nested \<Rightarrow> options \<Rightarrow> error + string nested"
  and formatMoney_list :: "settings \<Rightarrow> number nested list \<Rightarrow> options \<Rightarrow> error + string nested list"
  where
  "formatMoney st (Scalar amount) opts = map_sum id Scalar (formatMoney_num st amount opts)"
| "formatMoney st (Array vals) opts = map_sum id Array (formatMoney_list st vals opts)"
| "formatMoney_list st [] opts = Inr []"
| "formatMoney_list st (v # vs) opts =
     bind_err (formatMoney st v opts)
       (\<lambda>r. bind_err (formatMoney_list st vs opts) (\<lambda>rs. Inr (r # rs)))"

subsection \<open>Unformat\<close>

text \<open>
  The pattern \<open>new RegExp('[^0-9-(-)-' + decimal + ']', 'g')\<close> for a one-character
  \<open>decimal\<close>. The class holds the digits, the minus sign, the range from \<open>(\<close> to \<open>)\<close>
  (the two parentheses) and the separator. Two separators change the pattern itself: a
  backslash leaves the class unterminated, which is a \<open>SyntaxError\<close>, and a closing
  bracket ends the class early, so that the pattern is a character outside the class
  followed by a literal \<open>]\<close>.
\<close>

definition kept :: "char \<Rightarrow> bool" where
  "kept c = (is_digit c \<or> c = CHR ''-'' \<or> c = CHR ''('' \<or> c = CHR '')'')"

fun strip_pairs :: "string \<Rightarrow> string" where
  "strip_pairs (a # b # r) =
     (if \<not> kept a \<and> b = CHR '']'' then strip_pairs r else a # strip_pairs (b # r))"
| "strip_pairs s = s"

definition strip_cruft :: "char \<Rightarrow> string \<Rightarrow> error + string" where
  "strip_cruft dec s =
     (if dec = CHR 0x5C then Inl SyntaxError
      else if dec = CHR '']'' then Inr (strip_pairs s)
      else Inr (filter (\<lambda>c. kept c \<or> c = dec) s))"

text \<open>
  \<open>replace(/\(([-]*\d*[^)]?\d+)\)/g, '-$1')\<close>. The group cannot contain a closing
  parenthesis, so a match that starts at an opening parenthesis ends at the first closing
  one after it, and the text \<open>c\<close> between them must be: minus signs, digits, at most one
  further character, and at least one digit. \<open>bracketed c\<close> decides that: after the minus
  signs and the longest run of digits, either nothing is left and there was a digit, or one
  character is left over and only digits, at least one, follow it. A match is replaced by
  the expansion of \<open>-$1\<close>, and the search resumes after it.
\<close>

definition bracketed :: "string \<Rightarrow> bool" where
  "bracketed c =
     (let c1 = dropWhile (\<lambda>x. x = CHR ''-'') c;
          ds = takeWhile is_digit c1;
          rest = dropWhile is_digit c1
      in if rest = [] then ds \<noteq> []
         else tl rest \<noteq> [] \<and> list_all is_digit (tl rest))"

function neg_brackets :: "string \<Rightarrow> string \<Rightarrow> string" where
  "neg_brackets pre [] = []"
| "neg_brackets pre (x # r) =
     (let c = takeWhile (\<lambda>y. y \<noteq> CHR '')'') r
      in if x = CHR ''('' \<and> length c < length r \<and> bracketed c
         then get_substitution (x # c @ '')'') pre (drop (length c + 1) r) [Some c] ''-$1''
                @ neg_brackets (pre @ x # c @ '')'') (drop (length c + 1) r)
         else x # neg_brackets (pre @ [x]) r)"
  by pat_completeness auto
termination
  by (relation "measure (\<lambda>(pre, s). length s)") auto

text \<open>
  \<open>replace(/\((.*)\)/, '')\<close>: the first opening parenthesis that has a closing one later
  on its line is removed together with everything up to the last closing parenthesis of
  that line (\<open>.\<close> matches no line terminator).
\<close>

definition line_terminator :: "char \<Rightarrow> bool" where
  "line_terminator c = (c = CHR 0x0A \<or> c = CHR 0x0D)"

fun strip_brackets :: "string \<Rightarrow> string" where
  "strip_brackets [] = []"
| "strip_brackets (x # r) =
     (let seg = takeWhile (\<lambda>c. \<not> line_terminator c) r
      in if x = CHR ''('' \<and> CHR '')'' \<in> set seg
         then drop (length seg - length (takeWhile (\<lambda>c. c \<noteq> CHR '')'') (rev seg))) r
         else x # strip_brackets r)"

text \<open>
  \<open>parseFloat\<close>: leading white space, an optional sign, then the longest prefix that is a
  decimal literal (digits, an optional point with digits, an optional exponent); \<open>NaN\<close>
  when there is no such prefix. The literal \<open>Infinity\<close> is not read: it cannot be
  spelled with the characters that \<open>unformat\<close> keeps.
\<close>

definition white_space :: "char \<Rightarrow> bool" where
  "white_space c = (c \<in> set [CHR 0x09, CHR 0x0A, CHR 0x0B, CHR 0x0C, CHR 0x0D, CHR 0x20, CHR 0xA0])"

definition exponent_part :: "string \<Rightarrow> int" where
  "exponent_part s =
     (case s of
        [] \<Rightarrow> 0
      | e # t \<Rightarrow>
          if e = CHR ''e'' \<or> e = CHR ''E'' then
            (let neg = (t \<noteq> [] \<and> hd t = CHR ''-'');
                 t' = (if t \<noteq> [] \<and> (hd t = CHR ''-'' \<or> hd t = CHR ''+'') then tl t else t);
                 ds = takeWhile is_digit t'
             in if ds = [] then 0
                else if neg then - int (nat_of_digits ds) else int (nat_of_digits ds))
          else 0)"

definition parseFloat :: "string \<Rightarrow> number" where
  "parseFloat s =
     (let s1 = dropWhile white_space s;
          neg = (s1 \<noteq> [] \<and> hd s1 = CHR ''-'');
          s2 = (if s1 \<noteq> [] \<and> (hd s1 = CHR ''-'' \<or> hd s1 = CHR ''+'') then tl s1 else s1);
          ip = takeWhile is_digit s2;
          r1 = dropWhile is_digit s2;
          has_point = (r1 \<noteq> [] \<and> hd r1 = CHR ''.'');
          fp = (if has_point then takeWhile is_digit (tl r1) else []);
          r2 = (if has_point then dropWhile is_digit (tl r1) else r1)
      in if ip = [] \<and> fp = [] then NaN
         else let m = of_nat (nat_of_digits ip) + of_nat (nat_of_digits fp) / 10 ^ length fp;
                  v = m * pow10 (exponent_part r2)
              in Fin (if neg then - v else v))"

text \<open>
  \<open>unformat\<close> on a string. \<open>negative\<close> is the parity of the number of minus signs (no
  minus sign at all gives \<open>NaN\<close>, which counts as false); a \<open>NaN\<close> result is replaced by
  the fallback.
\<close>

fun is_NaN :: "number \<Rightarrow> bool" where
  "is_NaN NaN = True"
| "is_NaN v = False"

definition clean :: "char \<Rightarrow> string \<Rightarrow> error + string" where
  "clean dec s =
     bind_err (strip_cruft dec s)
       (\<lambda>s1. Inr (strip_brackets (neg_brackets [] (replace_str s1 [dec] ''.''))))"

definition count_minus :: "string \<Rightarrow> nat" where
  "count_minus s = length (filter (\<lambda>c. c = CHR ''-'') s)"

definition unformat_str :: "string \<Rightarrow> char \<Rightarrow> number \<Rightarrow> error + number" where
  "unformat_str s dec fb =
     bind_err (clean dec s)
       (\<lambda>unformattedValueString.
          let negative = (count_minus unformattedValueString mod 2 = 1);
              absUnformatted = parseFloat (filter (\<lambda>c. c \<noteq> CHR ''-'') unformattedValueString);
              unformatted = (if negative then negate absUnformatted else absUnformatted)
          in Inr (if \<not> is_NaN unformatted then unformatted else fb))"

datatype scalar = Num number | Str string

text \<open>
  \<open>unformat(value, decimal, fallback)\<close>: absent arguments default to the library's
  settings; arrays are unformatted element by element; a number is returned as it is,
  before the pattern is built.
\<close>

fun unformat_scalar :: "scalar \<Rightarrow> char \<Rightarrow> number \<Rightarrow> error + number" where
  "unformat_scalar (Num v) dec fb = Inr v"
| "unformat_scalar (Str s) dec fb = unformat_str s dec fb"

fun unformat' :: "scalar nested \<Rightarrow> char \<Rightarrow> number \<Rightarrow> error + number nested"
  and unformat_list :: "scalar nested list \<Rightarrow> char \<Rightarrow> number \<Rightarrow> error + number nested list"
  where
  "unformat' (Scalar v) dec fb = map_sum id Scalar (unformat_scalar v dec fb)"
| "unformat' (Array vals) dec fb = map_sum id Array (unformat_list vals dec fb)"
| "unformat_list [] dec fb = Inr []"
| "unformat_list (v # vs) dec fb =
     bind_err (unformat' v dec fb)
       (\<lambda>r. bind_err (unformat_list vs dec fb) (\<lambda>rs. Inr (r # rs)))"

definition unformat ::
  "settings \<Rightarrow> scalar nested \<Rightarrow> char option \<Rightarrow> number option \<Rightarrow> error + number nested" where
  "unformat st val dec fb = unformat' val (pick (decimal st) dec) (pick (fallback st) fb)"

subsection \<open>Column formatting\<close>

text \<open>\<open>indexOf\<close> as an integer, \<open>-1\<close> when there is no occurrence.\<close>

definition indexOf_int :: "string \<Rightarrow> string \<Rightarrow> int" where
  "indexOf_int s p = (case indexOf s p of None \<Rightarrow> - 1 | Some i \<Rightarrow> int i)"

text \<open>The length of the longest string among the formatted elements (nested arrays are skipped).\<close>

definition maxLength :: "string nested list \<Rightarrow> nat" where
  "maxLength formatted =
     foldl (\<lambda>m v. case v of Scalar fVal \<Rightarrow> if length fVal > m then length fVal else m
                            | Array a \<Rightarrow> m) 0 formatted"

text \<open>
  The second pass on one element: a string shorter than the longest one is padded,
  either by replacing the symbol with the symbol and the spaces, or in front.
  \<open>new Array(n + 1).join(' ')\<close> is \<open>n\<close> spaces.
\<close>

fun pad :: "settings \<Rightarrow> bool \<Rightarrow> nat \<Rightarrow> string nested \<Rightarrow> string nested" where
  "pad opts padAfterSymbol mx (Scalar val) =
     (if length val < mx
      then Scalar (if padAfterSymbol
                   then replace_str val (symbol opts)
                          (symbol opts @ replicate (mx - length val) (CHR '' ''))
                   else replicate (mx - length val) (CHR '' '') @ val)
      else Scalar val)"
| "pad opts padAfterSymbol mx (Array a) = Array a"

text \<open>
  \<open>formatColumn\<close> on an array. \<open>formatColumn_elems\<close> is the first pass: a nested array
  is formatted as a column of its own, with the merged options; any other element is
  unformatted with \<open>opts.decimal\<close> (and the library's fallback) and rendered as
  \<open>formatMoney\<close> renders it.
\<close>

fun formatColumn_arr :: "settings \<Rightarrow> scalar nested list \<Rightarrow> options \<Rightarrow> error + string nested list"
  and formatColumn_elems ::
    "settings \<Rightarrow> settings \<Rightarrow> format \<Rightarrow> scalar nested list \<Rightarrow> error + string nested list"
  where
  "formatColumn_arr st list opts0 =
     (let opts = objectAssign st opts0;
          formats = checkCurrencyFormat (format opts)
      in case fmt_pos formats of
           None \<Rightarrow> Inl TypeError
         | Some pos \<Rightarrow>
             (let padAfterSymbol = (indexOf_int pos ''%s'' < indexOf_int pos ''%v'')
              in bind_err (formatColumn_elems st opts formats list)
                   (\<lambda>formatted.
                      Inr (map (pad opts padAfterSymbol (maxLength formatted)) formatted))))"
| "formatColumn_elems st opts formats [] = Inr []"
| "formatColumn_elems st opts formats (Array vals # vs) =
     bind_err (formatColumn_arr st vals (as_options opts))
       (\<lambda>r. bind_err (formatColumn_elems st opts formats vs) (\<lambda>rs. Inr (Array r # rs)))"
| "formatColumn_elems st opts formats (Scalar x # vs) =
     bind_err (unformat_scalar x (decimal opts) (fallback st))
       (\<lambda>val. bind_err (render_money st opts formats val)
          (\<lambda>fVal. bind_err (formatColumn_elems st opts formats vs)
             (\<lambda>rs. Inr (Scalar fVal # rs))))"

text \<open>\<open>formatColumn(list, opts)\<close>: a \<open>null\<close> or \<open>undefined\<close> list gives the empty array.\<close>

definition formatColumn ::
  "settings \<Rightarrow> scalar nested list option \<Rightarrow> options \<Rightarrow> error + string nested list" where
  "formatColumn st list opts =
     (case list of None \<Rightarrow> Inr [] | Some l \<Rightarrow> formatColumn_arr st l opts)"

subsection \<open>The spec's reading of the negative template\<close>

text \<open>
  The derived negative template in the words of the specification: every literal minus
  sign of the template removed, and a minus sign inserted immediately before the \<open>%v\<close>
  placeholder.
\<close>

definition insert_minus_before_value :: "string \<Rightarrow> string" where
  "insert_minus_before_value g =
     (case indexOf g ''%v'' of None \<Rightarrow> g | Some i \<Rightarrow> take i g @ ''-'' @ drop i g)"

definition spec_neg_template :: "string \<Rightarrow> string" where
  "spec_neg_template f = insert_minus_before_value (filter (\<lambda>c. c \<noteq> CHR ''-'') f)"

subsection \<open>The spec's reading of the rounding\<close>


subsection \<open>The spec's reading of the placeholder substitution\<close>



subsection \<open>The spec's reading of the round trip\<close>


subsection \<open>The calls on a store\<close>

text \<open>
  To state what a call writes, the objects live in a store: the library's \<open>settings\<close>
  object, and the other objects (options objects, held by their properties) by address.
  \<open>Object.assign(target, ...sources)\<close> is the only operation of the library that
  writes to an object; it copies the properties of each source into the target, which may
  be the settings object as well as any other.
\<close>

record store =
  settings_obj :: settings
  objects :: "options list"

datatype ref = SettingsRef | ObjRef nat

text \<open>The own properties of an object.\<close>

fun props :: "store \<Rightarrow> ref \<Rightarrow> options" where
  "props h SettingsRef = as_options (settings_obj h)"
| "props h (ObjRef a) = (if a < length (objects h) then objects h ! a else no_options)"

text \<open>\<open>to[key] = from[key]\<close> for every property of \<open>from\<close>.\<close>

definition assign_props :: "options \<Rightarrow> options \<Rightarrow> options" where
  "assign_props to from =
     \<lparr> o_symbol = (case o_symbol from of None \<Rightarrow> o_symbol to | Some v \<Rightarrow> Some v),
       o_format = (case o_format from of None \<Rightarrow> o_format to | Some v \<Rightarrow> Some v),
       o_decimal = (case o_decimal from of None \<Rightarrow> o_decimal to | Some v \<Rightarrow> Some v),
       o_thousand = (case o_thousand from of None \<Rightarrow> o_thousand to | Some v \<Rightarrow> Some v),
       o_precision = (case o_precision from of None \<Rightarrow> o_precision to | Some v \<Rightarrow> Some v),
       o_grouping = (case o_grouping from of None \<Rightarrow> o_grouping to | Some v \<Rightarrow> Some v),
       o_stripZeros = (case o_stripZeros from of None \<Rightarrow> o_stripZeros to | Some v \<Rightarrow> Some v),
       o_fallback = (case o_fallback from of None \<Rightarrow> o_fallback to | Some v \<Rightarrow> Some v),
       o_round = (case o_round from of None \<Rightarrow> o_round to | Some v \<Rightarrow> Some v) \<rparr>"

fun write_props :: "store \<Rightarrow> ref \<Rightarrow> options \<Rightarrow> store" where
  "write_props h SettingsRef from = h\<lparr>settings_obj := objectAssign (settings_obj h) from\<rparr>"
| "write_props h (ObjRef a) from =
     h\<lparr>objects := (objects h)[a := assign_props (objects h ! a) from]\<rparr>"

definition Object_assign :: "store \<Rightarrow> ref \<Rightarrow> ref list \<Rightarrow> store" where
  "Object_assign h target sources = foldl (\<lambda>h' src. write_props h' target (props h' src)) h sources"

text \<open>The object literal \<open>{}\<close>: a new object without properties.\<close>

definition new_object :: "store \<Rightarrow> store \<times> ref" where
  "new_object h = (h\<lparr>objects := objects h @ [no_options]\<rparr>, ObjRef (length (objects h)))"

text \<open>The parameter \<open>opts\<close> with its default \<open>{}\<close>.\<close>

definition default_arg :: "store \<Rightarrow> ref option \<Rightarrow> store \<times> ref" where
  "default_arg h arg = (case arg of None \<Rightarrow> new_object h | Some r \<Rightarrow> (h, r))"

text \<open>\<open>opts = objectAssign({}, settings, opts)\<close>: the store after it, and the new object.\<close>

definition merge_options :: "store \<Rightarrow> ref \<Rightarrow> store \<times> ref" where
  "merge_options h opts =
     (let (h1, t) = new_object h in (Object_assign h1 t [SettingsRef, opts], t))"

text \<open>The options that a function reads from the merged object.\<close>

definition read_options :: "store \<Rightarrow> ref \<Rightarrow> settings" where
  "read_options h t = objectAssign (settings_obj h) (props h t)"

text \<open>
  \<open>formatNumber\<close>, \<open>formatMoney\<close> and \<open>formatColumn\<close> on a store, with \<open>opts\<close> given:
  each returns the store after the call and the result. \<open>unformat\<close> and \<open>toFixed\<close>
  create no object and call nothing that does.
\<close>

fun formatNumber_on :: "store \<Rightarrow> number nested \<Rightarrow> ref \<Rightarrow> store \<times> (error + string nested)"
  and formatNumber_list_on ::
    "store \<Rightarrow> number nested list \<Rightarrow> ref \<Rightarrow> store \<times> (error + string nested list)"
  where
  "formatNumber_on h (Scalar num) opts =
     (let (h', t) = merge_options h opts
      in (h', map_sum id Scalar (formatNumber_core (settings_obj h') (read_options h' t) num)))"
| "formatNumber_on h (Array vals) opts =
     (let (h', r) = formatNumber_list_on h vals opts in (h', map_sum id Array r))"
| "formatNumber_list_on h [] opts = (h, Inr [])"
| "formatNumber_list_on h (v # vs) opts =
     (let (h1, r) = formatNumber_on h v opts
      in case r of
           Inl e \<Rightarrow> (h1, Inl e)
         | Inr x \<Rightarrow>
             (let (h2, rs) = formatNumber_list_on h1 vs opts in (h2, map_sum id ((#) x) rs)))"

definition formatNumber_store ::
  "store \<Rightarrow> number nested \<Rightarrow> ref option \<Rightarrow> store \<times> (error + string nested)" where
  "formatNumber_store h number arg =
     (let (h1, opts) = default_arg h arg in formatNumber_on h1 number opts)"

text \<open>The rendering of one amount, shared by \<open>formatMoney\<close> and \<open>formatColumn\<close>.\<close>

definition render_money_on ::
  "store \<Rightarrow> ref \<Rightarrow> format \<Rightarrow> number \<Rightarrow> store \<times> (error + string)" where
  "render_money_on h t formats amount =
     (case useFormat formats amount of
        None \<Rightarrow> (h, Inl TypeError)
      | Some tpl \<Rightarrow>
          (let (h', r) = formatNumber_on h (Scalar (Math_abs amount)) t
           in (h', case r of
                     Inl e \<Rightarrow> Inl e
                   | Inr (Scalar v) \<Rightarrow>
                       Inr (replace_str (replace_str tpl ''%s'' (symbol (read_options h t))) ''%v'' v)
                   | Inr (Array a) \<Rightarrow> Inl TypeError)))"

fun formatMoney_on :: "store \<Rightarrow> number nested \<Rightarrow> ref \<Rightarrow> store \<times> (error + string nested)"
  and formatMoney_list_on ::
    "store \<Rightarrow> number nested list \<Rightarrow> ref \<Rightarrow> store \<times> (error + string nested list)"
  where
  "formatMoney_on h (Scalar amount) opts =
     (let (h1, t) = merge_options h opts;
          formats = checkCurrencyFormat (format (read_options h1 t));
          (h2, r) = render_money_on h1 t formats amount
      in (h2, map_sum id Scalar r))"
| "formatMoney_on h (Array vals) opts =
     (let (h', r) = formatMoney_list_on h vals opts in (h', map_sum id Array r))"
| "formatMoney_list_on h [] opts = (h, Inr [])"
| "formatMoney_list_on h (v # vs) opts =
     (let (h1, r) = formatMoney_on h v opts
      in case r of
           Inl e \<Rightarrow> (h1, Inl e)
         | Inr x \<Rightarrow>
             (let (h2, rs) = formatMoney_list_on h1 vs opts in (h2, map_sum id ((#) x) rs)))"

definition formatMoney_store ::
  "store \<Rightarrow> number nested \<Rightarrow> ref option \<Rightarrow> store \<times> (error + string nested)" where
  "formatMoney_store h amount arg =
     (let (h1, opts) = default_arg h arg in formatMoney_on h1 amount opts)"

fun formatColumn_on ::
    "store \<Rightarrow> scalar nested list \<Rightarrow> ref \<Rightarrow> store \<times> (error + string nested list)"
  and formatColumn_elems_on ::
    "store \<Rightarrow> ref \<Rightarrow> format \<Rightarrow> scalar nested list \<Rightarrow> store \<times> (error + string nested list)"
  where
  "formatColumn_on h list opts =
     (let (h1, t) = merge_options h opts;
          formats = checkCurrencyFormat (format (read_options h1 t))
      in case fmt_pos formats of
           None \<Rightarrow> (h1, Inl TypeError)
         | Some pos \<Rightarrow>
             (let padAfterSymbol = (indexOf_int pos ''%s'' < indexOf_int pos ''%v'');
                  (h2, r) = formatColumn_elems_on h1 t formats list
              in (h2, map_sum id
                        (\<lambda>formatted.
                           map (pad (read_options h2 t) padAfterSymbol (maxLength formatted))
                             formatted) r)))"
| "formatColumn_elems_on h t formats [] = (h, Inr [])"
| "formatColumn_elems_on h t formats (Array vals # vs) =
     (let (h1, r) = formatColumn_on h vals t
      in case r of
           Inl e \<Rightarrow> (h1, Inl e)
         | Inr x \<Rightarrow>
             (let (h2, rs) = formatColumn_elems_on h1 t formats vs
              in (h2, map_sum id ((#) (Array x)) rs)))"
| "formatColumn_elems_on h t formats (Scalar x # vs) =
     (case unformat_scalar x (decimal (read_options h t)) (fallback (settings_obj h)) of
        Inl e \<Rightarrow> (h, Inl e)
      | Inr val \<Rightarrow>
          (let (h1, r) = render_money_on h t formats val
           in case r of
                Inl e \<Rightarrow> (h1, Inl e)
              | Inr fVal \<Rightarrow>
                  (let (h2, rs) = formatColumn_elems_on h1 t formats vs
                   in (h2, map_sum id ((#) (Scalar fVal)) rs))))"

definition formatColumn_store ::
  "store \<Rightarrow> scalar nested list option \<Rightarrow> ref option \<Rightarrow> store \<times> (error + string nested list)" where
  "formatColumn_store h list arg =
     (let (h1, opts) = default_arg h arg
      in case list of None \<Rightarrow> (h1, Inr []) | Some l \<Rightarrow> formatColumn_on h1 l opts)"

definition unformat_store ::
  "store \<Rightarrow> scalar nested \<Rightarrow> char option \<Rightarrow> number option \<Rightarrow> store \<times> (error + number nested)" where
  "unformat_store h val dec fb = (h, unformat (settings_obj h) val dec fb)"

definition toFixed_store ::
  "store \<Rightarrow> number \<Rightarrow> int option \<Rightarrow> int option \<Rightarrow> store \<times> (error + string)" where
  "toFixed_store h val prec rnd = (h, toFixed (settings_obj h) val prec rnd)"

text \<open>
  \<open>frame h h'\<close>: from \<open>h\<close> to \<open>h'\<close> the settings object and every object that existed
  in \<open>h\<close> are unchanged (objects may have been added). A reference is valid in a store
  when it is the settings object or the address of an existing object.
\<close>

definition frame :: "store \<Rightarrow> store \<Rightarrow> bool" where
  "frame h h' \<longleftrightarrow>
     settings_obj h' = settings_obj h \<and> length (objects h) \<le> length (objects h')
     \<and> (\<forall>a < length (objects h). objects h' ! a = objects h ! a)"

fun valid_ref :: "store \<Rightarrow> ref \<Rightarrow> bool" where
  "valid_ref h SettingsRef = True"
| "valid_ref h (ObjRef a) = (a < length (objects h))"

section \<open>Properties\<close>

subsection \<open>Replacement of the first occurrence\<close>


lemma starts_with_iff: "starts_with s p \<longleftrightarrow> (\<exists>r. s = p @ r)"
  by (induction s p rule: starts_with.induct) auto

lemma indexOf_Some: "indexOf s p = Some i \<Longrightarrow> \<exists>r. drop i s = p @ r"
proof (induction s arbitrary: i)
  case Nil
  then show ?case by (simp split: if_splits)
next
  case (Cons c cs)
  show ?case
  proof (cases "starts_with (c # cs) p")
    case True
    with Cons.prems show ?thesis by (simp add: starts_with_iff)
  next
    case False
    with Cons.prems obtain j where "indexOf cs p = Some j" "i = Suc j" by auto
    with Cons.IH show ?thesis by simp
  qed
qed

lemma indexOf_char:
  "indexOf s [c] = (if c \<in> set s then Some (length (takeWhile (\<lambda>x. x \<noteq> c) s)) else None)"
  by (induction s) auto

lemma remove1_take_drop:
  "c \<in> set s \<Longrightarrow>
   take (length (takeWhile (\<lambda>x. x \<noteq> c) s)) s @ drop (length (takeWhile (\<lambda>x. x \<noteq> c) s) + 1) s
     = remove1 c s"
  by (induction s) auto

lemma replace_str_char_empty: "replace_str s [c] [] = remove1 c s"
  using remove1_take_drop[of c s]
  by (auto simp: replace_str_def indexOf_char remove1_idem)

lemma replace_str_value: "replace_str g ''%v'' ''-%v'' = insert_minus_before_value g"
proof (cases "indexOf g ''%v''")
  case None
  then show ?thesis by (simp add: replace_str_def insert_minus_before_value_def)
next
  case (Some i)
  then obtain r where r: "drop i g = ''%v'' @ r" using indexOf_Some by blast
  then have "drop (i + 2) g = r"
    by (metis add.commute append_eq_conv_conj drop_drop length_Cons list.size(3) numeral_2_eq_2 One_nat_def)
  with Some r show ?thesis
    by (simp add: replace_str_def insert_minus_before_value_def)
qed

lemma filter_remove1_once:
  "length (filter (\<lambda>x. x = c) s) \<le> 1 \<Longrightarrow> remove1 c s = filter (\<lambda>x. x \<noteq> c) s"
  by (induction s) (auto simp: filter_id_conv filter_empty_conv)

subsection \<open>The derived format triple\<close>

text \<open>
  C6, as the code has it. For a template string \<open>f\<close> that contains \<open>%v\<close>, the positive
  and the zero template are \<open>f\<close>, and the negative template is \<open>f\<close> with its first minus
  sign removed and a minus sign inserted immediately before the first \<open>%v\<close> of what is
  left. When \<open>f\<close> has at most one minus sign, that is the template with every minus sign
  removed and a minus sign before \<open>%v\<close>.
\<close>

theorem checkCurrencyFormat_string:
  "indexOf f ''%v'' \<noteq> None \<Longrightarrow>
     checkCurrencyFormat (FString f)
       = FObject (Some f) (Some (insert_minus_before_value (remove1 (CHR ''-'') f))) (Some f)
     \<and> (count_minus f \<le> 1 \<longrightarrow>
          fmt_neg (checkCurrencyFormat (FString f)) = Some (spec_neg_template f))"
  by (simp add: replace_str_char_empty replace_str_value spec_neg_template_def
        count_minus_def filter_remove1_once)

theorem checkCurrencyFormat_string_witness:
  "indexOf ''%s (%v)'' ''%v'' \<noteq> None
   \<and> count_minus ''%s (%v)'' \<le> 1
   \<and> checkCurrencyFormat (FString ''%s (%v)'')
       = FObject (Some ''%s (%v)'') (Some ''%s (-%v)'') (Some ''%s (%v)'')
   \<and> fmt_neg (checkCurrencyFormat (FString ''%s (%v)'')) = Some (spec_neg_template ''%s (%v)'')"
  using checkCurrencyFormat_string [of "''%s (%v)''"]
  by (simp add: insert_minus_before_value_def count_minus_def spec_neg_template_def)

text \<open>
  C6, as the specification words it, fails on a template with two minus signs: for
  \<open>-%v-\<close> the code keeps the second minus sign.
\<close>

theorem checkCurrencyFormat_all_minus_counterexample:
  "indexOf ''-%v-'' ''%v'' \<noteq> None
   \<and> fmt_neg (checkCurrencyFormat (FString ''-%v-'')) = Some ''-%v-''
   \<and> spec_neg_template ''-%v-'' = ''-%v''"
  by (simp add: replace_str_def spec_neg_template_def insert_minus_before_value_def)

subsection \<open>Decimal-safe rounding\<close>














subsection \<open>Number formatting\<close>











text \<open>
  By evaluation at the default options: \<open>formatNumber(-0.004)\<close> is \<open>-0.00\<close> and
  \<open>formatMoney(-0.004)\<close> is \<open>$-0.00\<close>.
\<close>

lemma formatNumber_negative_zero_default:
  "formatNumber_num default_settings (Fin (- 4 / 1000)) no_options = Inr ''-0.00''
   \<and> formatMoney_num default_settings (Fin (- 4 / 1000)) no_options = Inr ''$-0.00''"
  by code_simp

text \<open>
  C2 fails: with \<open>stripZeros\<close> and precision 0 the formatted string has no decimal
  separator, \<open>parts[1]\<close> is \<open>undefined\<close>, and \<open>formatNumber(1, {precision: 0, stripZeros:
  true})\<close> throws a \<open>TypeError\<close>.
\<close>

theorem formatNumber_stripZeros_precision0_throws:
  "formatNumber default_settings (Scalar (Fin 1))
     (no_options\<lparr>o_precision := Some 0, o_stripZeros := Some True\<rparr>) = Inl TypeError"
  by code_simp

text \<open>
  C3 fails: with a rounding direction the integer digits and the fraction digits come
  from two different roundings. \<open>formatNumber(0.991, {round: 1})\<close> takes its integer
  digit from the ceiling, \<open>1.00\<close>, and its fraction digits from rounding to nearest,
  \<open>0.99\<close>, and prints \<open>1.99\<close>.
\<close>

theorem formatNumber_round_up_inconsistent:
  "formatNumber default_settings (Scalar (Fin (991 / 1000))) (no_options\<lparr>o_round := Some 1\<rparr>)
     = Inr (Scalar ''1.99'')
   \<and> toFixed default_settings (Fin (991 / 1000)) (Some 2) (Some 1) = Inr ''1.00''
   \<and> toFixed default_settings (Fin (991 / 1000)) (Some 2) None = Inr ''0.99''"
  by code_simp

subsection \<open>Unformat\<close>

lemma pow10_pos: "0 < pow10 k"
  by (simp add: pow10_def)

lemma mantissa_nonneg: "0 \<le> (of_nat a + of_nat b / 10 ^ l) * pow10 e"
  by (intro mult_nonneg_nonneg add_nonneg_nonneg divide_nonneg_nonneg)
     (simp_all add: pow10_pos less_imp_le)

lemma parseFloat_shape:
  assumes "CHR ''-'' \<notin> set u"
  shows "parseFloat u = NaN
         \<or> (\<exists>a b l e. parseFloat u = Fin ((of_nat a + of_nat b / 10 ^ l) * pow10 e))"
proof -
  have h: "\<not> (dropWhile white_space u \<noteq> [] \<and> hd (dropWhile white_space u) = CHR ''-'')"
    using assms by (metis hd_in_set set_dropWhileD)
  show ?thesis
    unfolding parseFloat_def Let_def using h by (simp only: if_False) metis
qed

lemma parseFloat_nonneg:
  assumes "CHR ''-'' \<notin> set u" "parseFloat u = Fin m"
  shows "0 \<le> m"
  using parseFloat_shape[OF assms(1)] assms(2) mantissa_nonneg by auto

lemma unformat_str_sign:
  assumes "clean dec s = Inr t"
    and "parseFloat (filter (\<lambda>c. c \<noteq> CHR ''-'') t) = Fin m"
    and "m \<noteq> 0"
  shows "\<exists>v. unformat_str s dec fb = Inr (Fin v) \<and> (v < 0 \<longleftrightarrow> odd (count_minus t)) \<and> \<bar>v\<bar> = m"
proof -
  have "0 \<le> m" using parseFloat_nonneg[OF _ assms(2)] by simp
  with assms(3) have "0 < m" by simp
  then show ?thesis
    using assms(1,2)
    by (auto simp: unformat_str_def bind_err_def Let_def odd_iff_mod_2_eq_one)
qed

text \<open>
  C1, as the code has it. Let \<open>t\<close> be the cleaned string of \<open>s\<close> (cruft stripped, the
  decimal separator normalized, the parenthesized groups rewritten), and let \<open>t\<close> without
  its minus signs parse to a number \<open>m\<close> other than zero. Then \<open>unformat\<close> returns \<open>m\<close>
  or \<open>- m\<close>, and the result is negative if and only if the number of minus signs in \<open>t\<close> is
  odd. In particular \<open>unformat("(1.99)")\<close> is \<open>-1.99\<close>, \<open>unformat("--100")\<close> is \<open>100\<close>,
  and \<open>unformat("-(100)")\<close>, whose cleaned string is \<open>--100\<close>, is \<open>100\<close>.
\<close>

theorem unformat_minus_parity:
  assumes "clean dec s = Inr t"
    and "parseFloat (filter (\<lambda>c. c \<noteq> CHR ''-'') t) = Fin m"
    and "m \<noteq> 0"
  shows "(\<exists>v. unformat st (Scalar (Str s)) (Some dec) fb = Inr (Scalar (Fin v))
               \<and> (v < 0 \<longleftrightarrow> odd (count_minus t)) \<and> \<bar>v\<bar> = m)
         \<and> unformat default_settings (Scalar (Str ''(1.99)'')) None None
             = Inr (Scalar (Fin (- 199 / 100)))
         \<and> unformat default_settings (Scalar (Str ''--100'')) None None = Inr (Scalar (Fin 100))
         \<and> unformat default_settings (Scalar (Str ''-(100)'')) None None = Inr (Scalar (Fin 100))"
proof -
  obtain v where "unformat_str s dec (pick (fallback st) fb) = Inr (Fin v)"
      "v < 0 \<longleftrightarrow> odd (count_minus t)" "\<bar>v\<bar> = m"
    using unformat_str_sign[OF assms] by blast
  then have "\<exists>v. unformat st (Scalar (Str s)) (Some dec) fb = Inr (Scalar (Fin v))
               \<and> (v < 0 \<longleftrightarrow> odd (count_minus t)) \<and> \<bar>v\<bar> = m"
    by (simp add: unformat_def pick_def)
  moreover have "unformat default_settings (Scalar (Str ''(1.99)'')) None None
             = Inr (Scalar (Fin (- 199 / 100)))"
    by code_simp
  moreover have "unformat default_settings (Scalar (Str ''--100'')) None None
             = Inr (Scalar (Fin 100))"
    by code_simp
  moreover have "unformat default_settings (Scalar (Str ''-(100)'')) None None
             = Inr (Scalar (Fin 100))"
    by code_simp
  ultimately show ?thesis by blast
qed

theorem unformat_minus_parity_witness:
  "clean (CHR ''.'') ''(1.99)'' = Inr ''-1.99''
   \<and> parseFloat (filter (\<lambda>c. c \<noteq> CHR ''-'') ''-1.99'') = Fin (199 / 100)
   \<and> (199 / 100 :: rat) \<noteq> 0
   \<and> (\<exists>v. unformat default_settings (Scalar (Str ''(1.99)'')) (Some (CHR ''.'')) None
              = Inr (Scalar (Fin v))
          \<and> v < 0 \<and> odd (count_minus ''-1.99'') \<and> \<bar>v\<bar> = 199 / 100)"
proof -
  have c: "clean (CHR ''.'') ''(1.99)'' = Inr ''-1.99''" by code_simp
  have p: "parseFloat (filter (\<lambda>c. c \<noteq> CHR ''-'') ''-1.99'') = Fin (199 / 100)" by code_simp
  have n: "(199 / 100 :: rat) \<noteq> 0" by simp
  have o: "odd (count_minus ''-1.99'')" by (simp add: count_minus_def)
  show ?thesis
    using unformat_minus_parity[OF c p n, of default_settings None] c p o by auto
qed

text \<open>
  C1, as stated, fails twice. \<open>unformat("-(100)")\<close> is \<open>100\<close>, not \<open>-100\<close>: the
  parenthesized group becomes a second minus sign. And an odd number of minus signs does
  not make the result negative when nothing is left to parse: \<open>unformat("-")\<close> is the
  fallback \<open>0\<close>.
\<close>

theorem unformat_minus_parity_counterexample:
  "unformat default_settings (Scalar (Str ''-(100)'')) None None \<noteq> Inr (Scalar (Fin (- 100)))
   \<and> clean (CHR ''.'') ''-'' = Inr ''-'' \<and> odd (count_minus ''-'')
   \<and> unformat default_settings (Scalar (Str ''-'')) None None = Inr (Scalar (Fin 0))"
  by code_simp

subsection \<open>Column formatting\<close>

text \<open>
  C7 fails on a template without the symbol placeholder: \<open>indexOf('%s')\<close> is \<open>-1\<close>,
  which is below the index of \<open>%v\<close>, so the padding is attempted after the symbol, and
  the symbol does not occur in the rendered strings.
  \<open>formatColumn([1, 10], {format: '%v'})\<close> returns strings of lengths 4 and 5.
\<close>

theorem formatColumn_value_only_template_unequal:
  "formatColumn default_settings (Some [Scalar (Num (Fin 1)), Scalar (Num (Fin 10))])
     (no_options\<lparr>o_format := Some (FString ''%v'')\<rparr>)
     = Inr [Scalar ''1.00'', Scalar ''10.00'']"
  by code_simp

subsection \<open>Currency formatting\<close>
















subsection \<open>The round trip through \<open>formatMoney\<close> and \<open>unformat\<close>\<close>







lemma objectAssign_as_options: "objectAssign st (as_options opts) = opts"
  by (simp add: objectAssign_def as_options_def pick_def)






































text \<open>
  By evaluation: \<open>formatMoney(1.005)\<close> is \<open>$1.01\<close>, which \<open>unformat\<close> reads as \<open>1.01\<close>.
\<close>

lemma roundtrip_example:
  "formatMoney default_settings (Scalar (Fin (1005 / 1000))) no_options = Inr (Scalar ''$1.01'')
   \<and> unformat default_settings (Scalar (Str ''$1.01'')) None None = Inr (Scalar (Fin (101 / 100)))"
  by code_simp


subsection \<open>The calls on a store\<close>

lemma frame_refl: "frame h h"
  by (simp add: frame_def)

lemma frame_trans: "frame h h1 \<Longrightarrow> frame h1 h2 \<Longrightarrow> frame h h2"
  by (auto simp: frame_def)

lemma new_object_frame: "new_object h = (h', t) \<Longrightarrow> frame h h' \<and> t = ObjRef (length (objects h)) \<and> length (objects h') = Suc (length (objects h))"
  by (auto simp: new_object_def frame_def nth_append)

lemma write_props_fresh:
  "length (objects h0) \<le> a \<Longrightarrow> frame h0 h \<Longrightarrow> frame h0 (write_props h (ObjRef a) from)"
  by (auto simp: frame_def)

lemma Object_assign_fresh:
  "length (objects h0) \<le> a \<Longrightarrow> frame h0 h \<Longrightarrow> frame h0 (Object_assign h (ObjRef a) sources)"
  unfolding Object_assign_def
  by (induction sources arbitrary: h) (simp_all add: write_props_fresh del: write_props.simps)

lemma merge_options_frame: "merge_options h opts = (h', t) \<Longrightarrow> frame h h'"
proof -
  assume a: "merge_options h opts = (h', t)"
  obtain h1 t1 where n: "new_object h = (h1, t1)" by (cases "new_object h")
  from new_object_frame[OF n] have f: "frame h h1" and t1: "t1 = ObjRef (length (objects h))"
    by auto
  from a n have "h' = Object_assign h1 t1 [SettingsRef, opts]"
    by (auto simp: merge_options_def)
  then show ?thesis using Object_assign_fresh[OF _ f, of "length (objects h)"] t1 by simp
qed

lemma default_arg_frame: "default_arg h arg = (h', r) \<Longrightarrow> frame h h'"
  by (auto simp: default_arg_def frame_refl split: option.splits dest: new_object_frame)

lemma formatNumber_on_frame:
  "formatNumber_on h v opts = (h', r) \<Longrightarrow> frame h h'"
  "formatNumber_list_on h vs opts = (h', rs) \<Longrightarrow> frame h h'"
proof (induction h v opts and h vs opts arbitrary: h' r and h' rs
       rule: formatNumber_on_formatNumber_list_on.induct)
  case (1 h num opts)
  then show ?case
    by (auto simp: Let_def split: prod.splits dest: merge_options_frame)
next
  case (2 h vals opts)
  then show ?case by (auto simp: Let_def split: prod.splits)
next
  case (3 h opts)
  then show ?case by (simp add: frame_refl)
next
  case (4 h v vs opts)
  then show ?case
    by (auto simp: Let_def split: prod.splits sum.splits intro: frame_trans)
qed


lemma render_money_on_frame: "render_money_on h t formats amount = (h', r) \<Longrightarrow> frame h h'"
  by (auto simp: render_money_on_def frame_refl Let_def simp del: formatNumber_on.simps
      split: option.splits prod.splits dest: formatNumber_on_frame(1))

lemma formatMoney_on_frame:
  "formatMoney_on h v opts = (h', r) \<Longrightarrow> frame h h'"
  "formatMoney_list_on h vs opts = (h', rs) \<Longrightarrow> frame h h'"
proof (induction h v opts and h vs opts arbitrary: h' r and h' rs
       rule: formatMoney_on_formatMoney_list_on.induct)
  case (1 h amount opts)
  then show ?case
    by (auto simp: Let_def split: prod.splits
        dest!: merge_options_frame render_money_on_frame intro: frame_trans)
next
  case (2 h vals opts)
  then show ?case by (auto simp: Let_def split: prod.splits)
next
  case (3 h opts)
  then show ?case by (simp add: frame_refl)
next
  case (4 h v vs opts)
  then show ?case
    by (auto simp: Let_def split: prod.splits sum.splits intro: frame_trans)
qed

lemma formatColumn_on_frame:
  "formatColumn_on h l opts = (h', r) \<Longrightarrow> frame h h'"
  "formatColumn_elems_on h t formats vs = (h', rs) \<Longrightarrow> frame h h'"
proof (induction h l opts and h t formats vs arbitrary: h' r and h' rs
       rule: formatColumn_on_formatColumn_elems_on.induct)
  case (1 h list opts)
  obtain h1 t where m: "merge_options h opts = (h1, t)" by (cases "merge_options h opts")
  note f1 = merge_options_frame[OF m]
  show ?case
  proof (cases "fmt_pos (checkCurrencyFormat (format (read_options h1 t)))")
    case None
    with "1.prems" m f1 show ?thesis by (simp add: Let_def)
  next
    case (Some pos)
    obtain h2 r2 where e: "formatColumn_elems_on h1 t
        (checkCurrencyFormat (format (read_options h1 t))) list = (h2, r2)"
      by (cases "formatColumn_elems_on h1 t (checkCurrencyFormat (format (read_options h1 t))) list")
    have "frame h1 h2"
      using "1.IH"[OF m[symmetric] refl refl Some refl e] .
    moreover have "h' = h2" using "1.prems" m Some e by (simp add: Let_def)
    ultimately show ?thesis using f1 frame_trans by blast
  qed
next
  case (2 h t formats)
  then show ?case by (simp add: frame_refl)
next
  case (3 h t formats vals vs)
  then show ?case
    by (auto simp: Let_def split: prod.splits sum.splits intro: frame_trans)
next
  case (4 h t formats x vs)
  show ?case
  proof (cases "unformat_scalar x (decimal (read_options h t)) (fallback (settings_obj h))")
    case (Inl e)
    with "4.prems" show ?thesis by (simp add: frame_refl)
  next
    case (Inr val)
    obtain h1 r1 where rm: "render_money_on h t formats val = (h1, r1)"
      by (cases "render_money_on h t formats val")
    note f1 = render_money_on_frame[OF rm]
    show ?thesis
    proof (cases r1)
      case (Inl e)
      with "4.prems" Inr rm f1 show ?thesis by simp
    next
      case r1: (Inr fVal)
      obtain h2 rs2 where e2: "formatColumn_elems_on h1 t formats vs = (h2, rs2)"
        by (cases "formatColumn_elems_on h1 t formats vs")
      have "frame h1 h2"
        using "4.IH"[OF Inr refl rm[symmetric] r1 e2] .
      moreover have "h' = h2" using "4.prems" Inr rm r1 e2 by simp
      ultimately show ?thesis using f1 frame_trans by blast
    qed
  qed
qed

lemma props_frame: "frame h h' \<Longrightarrow> valid_ref h r \<Longrightarrow> props h' r = props h r"
  by (cases r) (auto simp: frame_def)

lemma valid_ref_frame: "frame h h' \<Longrightarrow> valid_ref h r \<Longrightarrow> valid_ref h' r"
  by (cases r) (auto simp: frame_def)

lemma assign_props_as_options:
  "assign_props (as_options st) o' = as_options (objectAssign st o')"
  by (simp add: assign_props_def as_options_def objectAssign_def pick_def split: option.splits)

lemma assign_props_empty: "assign_props no_options o' = o'"
  by (simp add: assign_props_def no_options_def split: option.splits)

lemma merge_options_props:
  assumes "merge_options h opts = (h', t)" "valid_ref h opts"
  shows "props h' t = as_options (objectAssign (settings_obj h) (props h opts))"
    and "valid_ref h' t"
proof -
  define n where "n = length (objects h)"
  define h1 where "h1 = h\<lparr>objects := objects h @ [no_options]\<rparr>"
  define h2 where "h2 = write_props h1 (ObjRef n) (props h1 SettingsRef)"
  have t: "t = ObjRef n" and h': "h' = write_props h2 (ObjRef n) (props h2 opts)"
    using assms(1)
    by (auto simp: merge_options_def new_object_def Object_assign_def n_def h1_def h2_def
        simp del: write_props.simps props.simps)
  have o2: "objects h2 = objects h @ [as_options (settings_obj h)]"
    by (simp add: h2_def h1_def n_def assign_props_empty)
  have s2: "settings_obj h2 = settings_obj h"
    by (simp add: h2_def h1_def)
  have p2: "props h2 opts = props h opts"
    using assms(2) by (cases opts) (auto simp: o2 s2 nth_append)
  have "objects h' = objects h @ [as_options (objectAssign (settings_obj h) (props h opts))]"
    unfolding h' p2 by (simp add: o2 n_def assign_props_as_options)
  then show "props h' t = as_options (objectAssign (settings_obj h) (props h opts))"
    and "valid_ref h' t"
    by (simp_all add: t n_def)
qed

lemma merge_options_read:
  assumes "merge_options h opts = (h', t)" "valid_ref h opts"
  shows "read_options h' t = objectAssign (settings_obj h) (props h opts)"
  using merge_options_props(1)[OF assms] merge_options_frame[OF assms(1)]
  by (simp add: read_options_def objectAssign_as_options frame_def)

lemma formatNumber_on_result:
  "valid_ref h opts \<Longrightarrow> snd (formatNumber_on h v opts) = formatNumber (settings_obj h) v (props h opts)"
  "valid_ref h opts \<Longrightarrow>
     snd (formatNumber_list_on h vs opts) = formatNumber_list (settings_obj h) vs (props h opts)"
proof (induction h v opts and h vs opts
       rule: formatNumber_on_formatNumber_list_on.induct)
  case (1 h num opts)
  obtain h' t where m: "merge_options h opts = (h', t)" by (cases "merge_options h opts")
  have "settings_obj h' = settings_obj h"
    using merge_options_frame[OF m] by (simp add: frame_def)
  then show ?case
    using m merge_options_read[OF m "1.prems"] by (simp add: formatNumber_num_def)
next
  case (2 h vals opts)
  then show ?case by (auto simp: Let_def split: prod.splits)
next
  case (3 h opts)
  then show ?case by simp
next
  case (4 h v vs opts)
  obtain h1 r where a: "formatNumber_on h v opts = (h1, r)" by (cases "formatNumber_on h v opts")
  note f = formatNumber_on_frame(1)[OF a]
  have r: "r = formatNumber (settings_obj h) v (props h opts)"
    using "4.IH"(1)[OF "4.prems"] a by simp
  show ?case
  proof (cases r)
    case (Inl e)
    from r Inl have e1: "formatNumber (settings_obj h) v (props h opts) = Inl e" by simp
    from a Inl show ?thesis by (simp add: bind_err_def e1)
  next
    case (Inr x)
    from r Inr have e1: "formatNumber (settings_obj h) v (props h opts) = Inr x" by simp
    obtain h2 rs where b: "formatNumber_list_on h1 vs opts = (h2, rs)"
      by (cases "formatNumber_list_on h1 vs opts")
    have "rs = formatNumber_list (settings_obj h1) vs (props h1 opts)"
      using "4.IH"(2)[OF a[symmetric] refl Inr valid_ref_frame[OF f "4.prems"]] b by simp
    then have e2: "formatNumber_list (settings_obj h) vs (props h opts) = rs"
      using f props_frame[OF f "4.prems"] by (simp add: frame_def)
    from a b Inr show ?thesis
      by (cases rs) (simp_all add: bind_err_def e1 e2)
  qed
qed


lemma render_money_on_result:
  assumes "valid_ref h t" "props h t = as_options opts"
  shows "snd (render_money_on h t formats amount)
           = render_money (settings_obj h) opts formats amount"
proof (cases "useFormat formats amount")
  case None
  then show ?thesis by (simp add: render_money_on_def render_money_def)
next
  case (Some tpl)
  obtain h' r where a: "formatNumber_on h (Scalar (Math_abs amount)) t = (h', r)"
    by (cases "formatNumber_on h (Scalar (Math_abs amount)) t")
  have r: "r = map_sum id Scalar
                 (formatNumber_num (settings_obj h) (Math_abs amount) (as_options opts))"
    using formatNumber_on_result(1)[OF assms(1), of "Scalar (Math_abs amount)"] a assms(2)
    by simp
  have ro: "read_options h t = opts"
    by (simp add: read_options_def assms(2) objectAssign_as_options)
  show ?thesis
    unfolding render_money_on_def render_money_def Some option.case a Let_def prod.case snd_conv
      r ro
    by (cases "formatNumber_num (settings_obj h) (Math_abs amount) (as_options opts)")
       (simp_all add: bind_err_def)
qed

lemma formatMoney_on_result:
  "valid_ref h opts \<Longrightarrow> snd (formatMoney_on h v opts) = formatMoney (settings_obj h) v (props h opts)"
  "valid_ref h opts \<Longrightarrow>
     snd (formatMoney_list_on h vs opts) = formatMoney_list (settings_obj h) vs (props h opts)"
proof (induction h v opts and h vs opts
       rule: formatMoney_on_formatMoney_list_on.induct)
  case (1 h amount opts)
  obtain h1 t where m: "merge_options h opts = (h1, t)" by (cases "merge_options h opts")
  define opts' where "opts' = objectAssign (settings_obj h) (props h opts)"
  have s: "settings_obj h1 = settings_obj h"
    using merge_options_frame[OF m] by (simp add: frame_def)
  have p: "props h1 t = as_options opts'" and v: "valid_ref h1 t"
    using merge_options_props[OF m "1.prems"] by (simp_all add: opts'_def)
  have ro: "read_options h1 t = opts'"
    using merge_options_read[OF m "1.prems"] by (simp add: opts'_def)
  obtain h2 r where rm: "render_money_on h1 t (checkCurrencyFormat (format opts')) amount = (h2, r)"
    by (cases "render_money_on h1 t (checkCurrencyFormat (format opts')) amount")
  have "r = render_money (settings_obj h) opts' (checkCurrencyFormat (format opts')) amount"
    using render_money_on_result[OF v p, of "checkCurrencyFormat (format opts')" amount] rm s
    by simp
  then show ?case
    using m rm ro by (simp add: formatMoney_num_def Let_def opts'_def)
next
  case (2 h vals opts)
  then show ?case by (auto simp: Let_def split: prod.splits)
next
  case (3 h opts)
  then show ?case by simp
next
  case (4 h v vs opts)
  obtain h1 r where a: "formatMoney_on h v opts = (h1, r)" by (cases "formatMoney_on h v opts")
  note f = formatMoney_on_frame(1)[OF a]
  have r: "r = formatMoney (settings_obj h) v (props h opts)"
    using "4.IH"(1)[OF "4.prems"] a by simp
  show ?case
  proof (cases r)
    case (Inl e)
    from r Inl have e1: "formatMoney (settings_obj h) v (props h opts) = Inl e" by simp
    from a Inl show ?thesis by (simp add: bind_err_def e1)
  next
    case (Inr x)
    from r Inr have e1: "formatMoney (settings_obj h) v (props h opts) = Inr x" by simp
    obtain h2 rs where b: "formatMoney_list_on h1 vs opts = (h2, rs)"
      by (cases "formatMoney_list_on h1 vs opts")
    have "rs = formatMoney_list (settings_obj h1) vs (props h1 opts)"
      using "4.IH"(2)[OF a[symmetric] refl Inr valid_ref_frame[OF f "4.prems"]] b by simp
    then have e2: "formatMoney_list (settings_obj h) vs (props h opts) = rs"
      using f props_frame[OF f "4.prems"] by (simp add: frame_def)
    from a b Inr show ?thesis
      by (cases rs) (simp_all add: bind_err_def e1 e2)
  qed
qed


lemma formatColumn_on_result:
  "valid_ref h opts \<Longrightarrow>
     snd (formatColumn_on h l opts) = formatColumn_arr (settings_obj h) l (props h opts)"
  "valid_ref h t \<Longrightarrow> props h t = as_options opts' \<Longrightarrow>
     snd (formatColumn_elems_on h t formats vs)
       = formatColumn_elems (settings_obj h) opts' formats vs"
proof (induction h l opts and h t formats vs arbitrary: and opts'
       rule: formatColumn_on_formatColumn_elems_on.induct)
  case (1 h list opts)
  obtain h1 t where m: "merge_options h opts = (h1, t)" by (cases "merge_options h opts")
  define mo where "mo = objectAssign (settings_obj h) (props h opts)"
  define formats where "formats = checkCurrencyFormat (format mo)"
  have s: "settings_obj h1 = settings_obj h"
    using merge_options_frame[OF m] by (simp add: frame_def)
  have p: "props h1 t = as_options mo" and v: "valid_ref h1 t"
    using merge_options_props[OF m "1.prems"] by (simp_all add: mo_def)
  have ro: "read_options h1 t = mo"
    using merge_options_read[OF m "1.prems"] by (simp add: mo_def)
  show ?case
  proof (cases "fmt_pos formats")
    case None
    with m ro show ?thesis by (simp add: Let_def formats_def mo_def)
  next
    case (Some pos)
    obtain h2 r where e: "formatColumn_elems_on h1 t formats list = (h2, r)"
      by (cases "formatColumn_elems_on h1 t formats list")
    have f2: "frame h1 h2" using formatColumn_on_frame(2)[OF e] .
    have r: "r = formatColumn_elems (settings_obj h) mo formats list"
      using "1.IH"[OF m[symmetric] refl _ _ refl v p, of formats pos] Some e s ro
      by (simp add: formats_def)
    have ro2: "read_options h2 t = mo"
      using props_frame[OF f2 v] p f2 s
      by (simp add: read_options_def objectAssign_as_options frame_def)
    have ms: "map_sum id f y = bind_err y (\<lambda>x. Inr (f x))"
      for f :: "string nested list \<Rightarrow> string nested list" and y :: "error + string nested list"
      by (cases y) (simp_all add: bind_err_def)
    show ?thesis
      using m e Some ro ro2
      by (simp add: Let_def formats_def[symmetric] mo_def[symmetric] ms r)
  qed
next
  case (2 h t formats)
  then show ?case by simp
next
  case (3 h t formats vals vs)
  obtain h1 r where a: "formatColumn_on h vals t = (h1, r)" by (cases "formatColumn_on h vals t")
  note f = formatColumn_on_frame(1)[OF a]
  have r: "r = formatColumn_arr (settings_obj h) vals (as_options opts')"
    using "3.IH"(1)[OF "3.prems"(1)] a "3.prems"(2)
    by (simp del: formatColumn_on.simps formatColumn_arr.simps)
  show ?case
  proof (cases r)
    case (Inl e)
    from r Inl have e1: "formatColumn_arr (settings_obj h) vals (as_options opts') = Inl e" by simp
    from a Inl show ?thesis
      by (simp add: bind_err_def e1 del: formatColumn_on.simps formatColumn_arr.simps)
  next
    case (Inr x)
    from r Inr have e1: "formatColumn_arr (settings_obj h) vals (as_options opts') = Inr x" by simp
    obtain h2 rs where b: "formatColumn_elems_on h1 t formats vs = (h2, rs)"
      by (cases "formatColumn_elems_on h1 t formats vs")
    have p1: "props h1 t = as_options opts'"
      using props_frame[OF f "3.prems"(1)] "3.prems"(2) by simp
    have "rs = formatColumn_elems (settings_obj h1) opts' formats vs"
      using "3.IH"(2)[OF a[symmetric] refl Inr valid_ref_frame[OF f "3.prems"(1)] p1] b
      by (simp del: formatColumn_on.simps formatColumn_arr.simps)
    then have e2: "formatColumn_elems (settings_obj h) opts' formats vs = rs"
      using f by (simp add: frame_def)
    from a b Inr show ?thesis
      by (cases rs)
         (simp_all add: bind_err_def e1 e2 del: formatColumn_on.simps formatColumn_arr.simps)
  qed
next
  case (4 h t formats x vs)
  have ro: "read_options h t = opts'"
    by (simp add: read_options_def "4.prems"(2) objectAssign_as_options)
  show ?case
  proof (cases "unformat_scalar x (decimal opts') (fallback (settings_obj h))")
    case (Inl e)
    then show ?thesis by (simp add: ro bind_err_def)
  next
    case (Inr val)
    obtain h1 r1 where rm: "render_money_on h t formats val = (h1, r1)"
      by (cases "render_money_on h t formats val")
    note f = render_money_on_frame[OF rm]
    have r1: "r1 = render_money (settings_obj h) opts' formats val"
      using render_money_on_result[OF "4.prems", of formats val] rm by simp
    show ?thesis
    proof (cases r1)
      case (Inl e)
      from r1 Inl have e1: "render_money (settings_obj h) opts' formats val = Inl e" by simp
      from Inr rm Inl show ?thesis by (simp add: ro bind_err_def e1)
    next
      case fv: (Inr fVal)
      from r1 fv have e1: "render_money (settings_obj h) opts' formats val = Inr fVal" by simp
      obtain h2 rs where b: "formatColumn_elems_on h1 t formats vs = (h2, rs)"
        by (cases "formatColumn_elems_on h1 t formats vs")
      have p1: "props h1 t = as_options opts'"
        using props_frame[OF f "4.prems"(1)] "4.prems"(2) by simp
      have u: "unformat_scalar x (decimal (read_options h t)) (fallback (settings_obj h)) = Inr val"
        using Inr ro by simp
      have "rs = formatColumn_elems (settings_obj h1) opts' formats vs"
        using "4.IH"[OF u refl rm[symmetric] fv valid_ref_frame[OF f "4.prems"(1)] p1] b
        by simp
      then have e2: "formatColumn_elems (settings_obj h) opts' formats vs = rs"
        using f by (simp add: frame_def)
      from Inr rm fv b show ?thesis
        by (cases rs) (simp_all add: ro bind_err_def e1 e2)
    qed
  qed
qed

text \<open>
  The calls on a store return what the functions of the embedding return, on the settings
  and the options that the store holds when the call starts.
\<close>

lemma default_arg_props:
  assumes "default_arg h arg = (h1, opts)" "case arg of None \<Rightarrow> True | Some r \<Rightarrow> valid_ref h r"
  shows "valid_ref h1 opts"
    and "props h1 opts = (case arg of None \<Rightarrow> no_options | Some r \<Rightarrow> props h r)"
    and "settings_obj h1 = settings_obj h"
  using assms
  by (auto simp: default_arg_def new_object_def split: option.splits)

lemma store_results_agree:
  assumes "case arg of None \<Rightarrow> True | Some r \<Rightarrow> valid_ref h r"
  defines "opts \<equiv> (case arg of None \<Rightarrow> no_options | Some r \<Rightarrow> props h r)"
  shows "snd (formatNumber_store h number arg) = formatNumber (settings_obj h) number opts"
    and "snd (formatMoney_store h amount arg) = formatMoney (settings_obj h) amount opts"
    and "snd (formatColumn_store h list arg) = formatColumn (settings_obj h) list opts"
proof -
  obtain h1 o1 where d: "default_arg h arg = (h1, o1)" by (cases "default_arg h arg")
  note p = default_arg_props[OF d assms(1)]
  show "snd (formatNumber_store h number arg) = formatNumber (settings_obj h) number opts"
    using formatNumber_on_result(1)[OF p(1), of number] p(2,3) d
    by (simp add: formatNumber_store_def opts_def)
  show "snd (formatMoney_store h amount arg) = formatMoney (settings_obj h) amount opts"
    using formatMoney_on_result(1)[OF p(1), of amount] p(2,3) d
    by (simp add: formatMoney_store_def opts_def)
  show "snd (formatColumn_store h list arg) = formatColumn (settings_obj h) list opts"
    using formatColumn_on_result(1)[OF p(1)] p(2,3) d
    by (cases list)
       (simp_all add: formatColumn_store_def formatColumn_def opts_def
          del: formatColumn_on.simps formatColumn_arr.simps)
qed

text \<open>
  C9. Whatever the store, the input and the options argument (absent, the settings object
  itself, or any other object), the settings object holds the same field values after a
  call of \<open>unformat\<close>, \<open>toFixed\<close>, \<open>formatNumber\<close>, \<open>formatMoney\<close> or \<open>formatColumn\<close>
  as before it: the only writes are those of \<open>Object.assign\<close>, and its target is each
  time an object made for that call.
\<close>

theorem settings_never_mutated:
  "settings_obj (fst (unformat_store h val dec fb)) = settings_obj h
   \<and> settings_obj (fst (toFixed_store h x prec rnd)) = settings_obj h
   \<and> settings_obj (fst (formatNumber_store h number arg)) = settings_obj h
   \<and> settings_obj (fst (formatMoney_store h amount arg)) = settings_obj h
   \<and> settings_obj (fst (formatColumn_store h list arg)) = settings_obj h"
proof -
  obtain h1 o1 where d: "default_arg h arg = (h1, o1)" by (cases "default_arg h arg")
  note f0 = default_arg_frame[OF d]
  have n: "settings_obj (fst (formatNumber_store h number arg)) = settings_obj h"
  proof -
    obtain h2 r where e: "formatNumber_on h1 number o1 = (h2, r)"
      by (cases "formatNumber_on h1 number o1")
    from frame_trans[OF f0 formatNumber_on_frame(1)[OF e]] d e show ?thesis
      by (simp add: formatNumber_store_def frame_def)
  qed
  have m: "settings_obj (fst (formatMoney_store h amount arg)) = settings_obj h"
  proof -
    obtain h2 r where e: "formatMoney_on h1 amount o1 = (h2, r)"
      by (cases "formatMoney_on h1 amount o1")
    from frame_trans[OF f0 formatMoney_on_frame(1)[OF e]] d e show ?thesis
      by (simp add: formatMoney_store_def frame_def)
  qed
  have c: "settings_obj (fst (formatColumn_store h list arg)) = settings_obj h"
  proof (cases list)
    case None
    with d f0 show ?thesis by (simp add: formatColumn_store_def frame_def)
  next
    case (Some l)
    obtain h2 r where e: "formatColumn_on h1 l o1 = (h2, r)"
      by (cases "formatColumn_on h1 l o1")
    from frame_trans[OF f0 formatColumn_on_frame(1)[OF e]] d e Some show ?thesis
      by (simp add: formatColumn_store_def frame_def del: formatColumn_on.simps)
  qed
  from n m c show ?thesis by (simp add: unformat_store_def toFixed_store_def)
qed

text \<open>
  The store can tell the difference: an \<open>Object.assign\<close> whose target is the settings
  object does change it.
\<close>

lemma Object_assign_settings_example:
  "settings_obj
     (Object_assign \<lparr>settings_obj = default_settings, objects = [no_options\<lparr>o_symbol := Some ''EUR''\<rparr>]\<rparr>
        SettingsRef [ObjRef 0])
   \<noteq> default_settings"
  by (simp add: Object_assign_def objectAssign_def default_settings_def no_options_def pick_def)

end
